theory Spec2Isabelle
  imports Main "HOL-Library.Sublist"
begin

section \<open>Python strings and dictionaries\<close>

text \<open>
  A Python \<open>str\<close> is a \<open>string\<close>. \<open>key.startswith(p)\<close> is \<open>prefix p key\<close>,
  \<open>key[len(p):]\<close> is \<open>drop (length p) key\<close>.
\<close>

text \<open>\<open>sub in s\<close>: \<open>sub\<close> occurs in \<open>s\<close> as a contiguous substring.\<close>

fun str_contains :: "string \<Rightarrow> string \<Rightarrow> bool" where
  "str_contains sub [] = (sub = [])"
| "str_contains sub (c # cs) = (prefix sub (c # cs) \<or> str_contains sub cs)"

text \<open>
  A \<open>dict\<close> keeps its entries in insertion order and has each key once: an association
  list with distinct keys. \<open>d[k] = v\<close> overwrites the value of a key that is present,
  in its place, and appends the entry otherwise.
\<close>

type_synonym 't weight_mapping = "(string \<times> 't) list"

fun dict_set :: "(string \<times> 't) list \<Rightarrow> string \<Rightarrow> 't \<Rightarrow> (string \<times> 't) list" where
  "dict_set [] k v = [(k, v)]"
| "dict_set ((k', v') # d) k v = (if k' = k then (k, v) # d else (k', v') # dict_set d k v)"

section \<open>Key Normalizer: \<open>convert_key_format\<close>\<close>

text \<open>The local list \<open>prefixes\<close> of the source.\<close>

definition key_prefixes :: "string list" where
  "key_prefixes = [''diffusion_model.'', ''transformer.'']"

text \<open>The loop over the prefixes: the first prefix that matches is cut off, then \<open>break\<close>.\<close>

fun strip_first_prefix :: "string list \<Rightarrow> string \<Rightarrow> string" where
  "strip_first_prefix [] key = key"
| "strip_first_prefix (p # ps) key =
     (if prefix p key then drop (length p) key else strip_first_prefix ps key)"

definition convert_key_format :: "string \<Rightarrow> string" where
  "convert_key_format key = strip_first_prefix key_prefixes key"

section \<open>Block Filter: \<open>filter_lora_keys\<close>\<close>

text \<open>
  The loop body of \<open>filter_lora_keys\<close>. Python chains comparison operators:
  \<open>blocks_type == "single_blocks" in base_key\<close> is
  \<open>blocks_type == "single_blocks" and "single_blocks" in base_key\<close>.
\<close>

fun filter_loop :: "string \<Rightarrow> (string \<times> 't) list \<Rightarrow> (string \<times> 't) list \<Rightarrow> (string \<times> 't) list" where
  "filter_loop blocks_type [] filtered_lora = filtered_lora"
| "filter_loop blocks_type ((key, val) # rest) filtered_lora =
     (let base_key = convert_key_format key in
      if blocks_type = ''single_blocks'' \<and> str_contains ''single_blocks'' base_key
        then filter_loop blocks_type rest (dict_set filtered_lora key val)
      else if blocks_type = ''double_blocks'' \<and> str_contains ''double_blocks'' base_key
        then filter_loop blocks_type rest (dict_set filtered_lora key val)
      else filter_loop blocks_type rest filtered_lora)"

definition filter_lora_keys :: "(string \<times> 't) list \<Rightarrow> string \<Rightarrow> (string \<times> 't) list" where
  "filter_lora_keys lora blocks_type =
     (if blocks_type = ''all'' then lora else filter_loop blocks_type lora [])"

text \<open>The predicate the loop applies to an entry, for a selector other than \<open>all\<close>.\<close>

definition block_selected :: "string \<Rightarrow> string \<Rightarrow> bool" where
  "block_selected blocks_type key =
     ((blocks_type = ''single_blocks'' \<or> blocks_type = ''double_blocks'')
      \<and> str_contains blocks_type (convert_key_format key))"

section \<open>Tensors and exceptions\<close>

text \<open>
  The tensor type and its arithmetic belong to \<open>torch\<close>, not to this repository: they
  are parameters of the model. \<open>shape\<close> is \<open>w.shape\<close>, \<open>true_div a n\<close> is \<open>a / n\<close>
  for an integer \<open>n\<close>, \<open>tsqrt\<close> is \<open>a.sqrt()\<close>, and \<open>mul w s\<close> is \<open>w * s\<close>, which
  raises when the two shapes cannot be broadcast (\<open>None\<close>).
\<close>

record 't torch =
  shape :: "'t \<Rightarrow> nat list"
  true_div :: "'t \<Rightarrow> nat \<Rightarrow> 't"
  tsqrt :: "'t \<Rightarrow> 't"
  mul :: "'t \<Rightarrow> 't \<Rightarrow> 't option"

datatype error =
    IndexError
  | RuntimeError
  | TypeError
  | DeserializeError
  | Exception string

text \<open>\<open>w.shape[i]\<close>: indexing the shape tuple past its end raises \<open>IndexError\<close>.\<close>

definition shape_at :: "'t torch \<Rightarrow> 't \<Rightarrow> nat \<Rightarrow> error + nat" where
  "shape_at ops w i =
     (if i < length (shape ops w) then Inr (shape ops w ! i) else Inl IndexError)"

section \<open>Format Converter: \<open>check_for_musubi\<close>\<close>

text \<open>The local \<open>prefix\<close> of the source.\<close>

definition musubi_prefix :: string where
  "musubi_prefix = ''lora_unet_''"

text \<open>\<open>key.split(".", 1)[0]\<close>: the part of the key before its first dot.\<close>

definition lora_name_of :: "string \<Rightarrow> string" where
  "lora_name_of key = takeWhile (\<lambda>c. c \<noteq> CHR ''.'') key"

text \<open>
  \<open>s.replace(old, new)\<close>: the occurrences of \<open>old\<close> are replaced from left to right,
  without overlap. For the empty \<open>old\<close> Python puts \<open>new\<close> before every character and
  at the end.
\<close>

function str_replace :: "string \<Rightarrow> string \<Rightarrow> string \<Rightarrow> string" where
  "str_replace old new [] = (if old = [] then new else [])"
| "str_replace old new (c # cs) =
     (if old = [] then new @ c # str_replace old new cs
      else if prefix old (c # cs) then new @ str_replace old new (drop (length old) (c # cs))
      else c # str_replace old new cs)"
  by pat_completeness auto
termination
  by (relation "measure (\<lambda>(old, new, s). length s)") (auto simp: neq_Nil_conv)

text \<open>Lines 92 to 98: from the LoRA name to the module name.\<close>

definition module_name_of :: "string \<Rightarrow> string" where
  "module_name_of lora_name =
     (let module_name = drop (length musubi_prefix) lora_name;
          module_name = str_replace ''_'' ''.'' module_name;
          module_name = str_replace ''double.blocks.'' ''double_blocks.'' module_name;
          module_name = str_replace ''single.blocks.'' ''single_blocks.'' module_name;
          module_name = str_replace ''img.'' ''img_'' module_name;
          module_name = str_replace ''txt.'' ''txt_'' module_name;
          module_name = str_replace ''attn.'' ''attn_'' module_name
      in module_name)"

text \<open>
  The first loop (lines 77 to 82): the alpha of a LoRA name is the value of the first
  sentinel-prefixed key of that name that contains \<open>alpha\<close>; \<open>musubi\<close> is set when one
  is recorded.
\<close>

fun scan_alphas :: "(string \<times> 't) list \<Rightarrow> (string \<rightharpoonup> 't) \<times> bool \<Rightarrow> (string \<rightharpoonup> 't) \<times> bool" where
  "scan_alphas [] st = st"
| "scan_alphas ((key, val) # rest) (lora_alphas, musubi) =
     (if prefix musubi_prefix key then
        (let lora_name = lora_name_of key in
         if lora_alphas lora_name = None \<and> str_contains ''alpha'' key
           then scan_alphas rest (lora_alphas(lora_name \<mapsto> val), True)
           else scan_alphas rest (lora_alphas, musubi))
      else scan_alphas rest (lora_alphas, musubi))"

text \<open>
  Lines 99 to 108: the new key and the scale dimension of a key, by its role marker;
  \<open>None\<close> when the key has neither marker.
\<close>

definition new_key_and_dim ::
  "'t torch \<Rightarrow> string \<Rightarrow> 't \<Rightarrow> (string \<times> (error + nat)) option" where
  "new_key_and_dim ops key weight =
     (let module_name = module_name_of (lora_name_of key);
          diffusers_prefix = ''diffusion_model''
      in if str_contains ''lora_down'' key
           then Some (diffusers_prefix @ ''.'' @ module_name @ ''.lora_A.weight'',
                      shape_at ops weight 0)
         else if str_contains ''lora_up'' key
           then Some (diffusers_prefix @ ''.'' @ module_name @ ''.lora_B.weight'',
                      shape_at ops weight 1)
         else None)"

text \<open>
  The body of the second loop (lines 87 to 117) on one entry: what it prints, and either
  the exception it raises, or the entry it stores, \<open>None\<close> when it stores nothing
  (\<open>continue\<close>, or a key without the sentinel prefix).
\<close>

definition convert_entry ::
  "'t torch \<Rightarrow> (string \<rightharpoonup> 't) \<Rightarrow> string \<times> 't \<Rightarrow> string list \<times> (error + (string \<times> 't) option)" where
  "convert_entry ops lora_alphas kv =
     (case kv of (key, weight) \<Rightarrow>
        if prefix musubi_prefix key then
          if str_contains ''alpha'' key then ([], Inr None)
          else
            (case new_key_and_dim ops key weight of
               None \<Rightarrow> ([''unexpected key: '' @ key @ '' in Musubi LoRA format''], Inr None)
             | Some (new_key, Inl e) \<Rightarrow> ([], Inl e)
             | Some (new_key, Inr dim) \<Rightarrow>
                 (case lora_alphas (lora_name_of key) of
                    Some alpha \<Rightarrow>
                      (case mul ops weight (tsqrt ops (true_div ops alpha dim)) of
                         None \<Rightarrow> ([], Inl RuntimeError)
                       | Some scaled \<Rightarrow> ([], Inr (Some (new_key, scaled))))
                  | None \<Rightarrow>
                      ([''missing alpha for '' @ lora_name_of key], Inr (Some (new_key, weight)))))
        else ([], Inr None))"

text \<open>
  The second loop: the entries in order, an exception ends it; the printed lines are
  collected in order, those before an exception included.
\<close>

fun convert_items ::
  "'t torch \<Rightarrow> (string \<rightharpoonup> 't) \<Rightarrow> (string \<times> 't) list \<Rightarrow> (string \<times> 't) list
     \<Rightarrow> string list \<times> (error + (string \<times> 't) list)" where
  "convert_items ops lora_alphas [] converted_lora = ([], Inr converted_lora)"
| "convert_items ops lora_alphas (kv # rest) converted_lora =
     (case convert_entry ops lora_alphas kv of
        (out, Inl e) \<Rightarrow> (out, Inl e)
      | (out, Inr None) \<Rightarrow>
          (case convert_items ops lora_alphas rest converted_lora of
             (out', r) \<Rightarrow> (out @ out', r))
      | (out, Inr (Some (new_key, w))) \<Rightarrow>
          (case convert_items ops lora_alphas rest (dict_set converted_lora new_key w) of
             (out', r) \<Rightarrow> (out @ out', r)))"

text \<open>\<open>check_for_musubi\<close>: the printed lines and the returned mapping or the exception.\<close>

definition check_for_musubi ::
  "'t torch \<Rightarrow> (string \<times> 't) list \<Rightarrow> string list \<times> (error + (string \<times> 't) list)" where
  "check_for_musubi ops lora =
     (case scan_alphas lora (Map.empty, False) of
        (lora_alphas, musubi) \<Rightarrow>
          if musubi then
            (case convert_items ops lora_alphas lora [] of
               (out, r) \<Rightarrow> (''Loading Musubi Tuner format LoRA...'' # out, r))
          else ([''Loading Diffusers format LoRA...''], Inr lora))"

section \<open>The node's operation: \<open>load_lora\<close>\<close>

text \<open>
  The collaborators of \<open>load_lora\<close> are parameters: \<open>folder_paths.get_full_path\<close> on
  the folder \<open>loras\<close> (\<open>None\<close> for an unknown name), \<open>os.path.exists\<close>,
  \<open>comfy.utils.load_torch_file\<close>, which may fail, and the first component of what
  \<open>comfy.sd.load_lora_for_models\<close> returns, which may be \<open>None\<close>.
\<close>

record ('t, 'm, 's) comfy =
  get_full_path :: "string \<Rightarrow> string option"
  path_exists :: "string \<Rightarrow> bool"
  load_torch_file :: "string \<Rightarrow> error + (string \<times> 't) list"
  load_lora_for_models :: "'m \<Rightarrow> (string \<times> 't) list \<Rightarrow> 's \<Rightarrow> 'm option"

text \<open>The calls to the collaborators and the printed lines, in the order they happen.\<close>

datatype event =
    GetFullPath string
  | PathExists string
  | LoadTorchFile string
  | Print string
  | LoadLoraForModels "string list"

text \<open>The loader instance: its single-slot cache \<open>self.loaded_lora\<close>.\<close>

record 't loader =
  loaded_lora :: "(string \<times> (string \<times> 't) list) option"

text \<open>
  Lines 155 to 164: the cache. The result is the loader afterwards, the events, and the
  mapping \<open>lora\<close> or the exception of the deserializer.
\<close>

definition cached_load ::
  "('t, 'm, 's) comfy \<Rightarrow> 't loader \<Rightarrow> string
     \<Rightarrow> 't loader \<times> event list \<times> (error + (string \<times> 't) list)" where
  "cached_load env self lora_path =
     (let (self1, lora) =
            (case loaded_lora self of
               Some (p, l) \<Rightarrow>
                 if p = lora_path then (self, Some l) else (self\<lparr>loaded_lora := None\<rparr>, None)
             | None \<Rightarrow> (self, None))
      in if loaded_lora self1 = None then
           (case load_torch_file env lora_path of
              Inl e \<Rightarrow> (self1, [LoadTorchFile lora_path], Inl e)
            | Inr l \<Rightarrow>
                (self1\<lparr>loaded_lora := Some (lora_path, l)\<rparr>, [LoadTorchFile lora_path], Inr l))
         else (case lora of
                 Some l \<Rightarrow> (self1, [], Inr l)
               | None \<Rightarrow> (self1, [], Inl (Exception ''UnboundLocalError''))))"

text \<open>Lines 166 to 175: conversion, filter and application of the patch.\<close>

definition apply_lora ::
  "('t, 'm, 's) comfy \<Rightarrow> 't torch \<Rightarrow> 'm \<Rightarrow> (string \<times> 't) list \<Rightarrow> 's \<Rightarrow> string
     \<Rightarrow> event list \<times> (error + 'm)" where
  "apply_lora env ops model lora strength blocks_type =
     (case check_for_musubi ops lora of
        (out, Inl e) \<Rightarrow> (map Print out, Inl e)
      | (out, Inr diffusers_lora) \<Rightarrow>
          (let filtered_lora = filter_lora_keys diffusers_lora blocks_type in
           (map Print out @ [LoadLoraForModels (map fst filtered_lora)],
            (case load_lora_for_models env model filtered_lora strength of
               Some new_model \<Rightarrow> Inr new_model
             | None \<Rightarrow> Inr model))))"

definition load_lora ::
  "('t, 'm, 's) comfy \<Rightarrow> 't torch \<Rightarrow> 't loader \<Rightarrow> 'm \<Rightarrow> string \<Rightarrow> 's \<Rightarrow> string
     \<Rightarrow> 't loader \<times> event list \<times> (error + 'm)" where
  "load_lora env ops self model lora_name strength blocks_type =
     (if lora_name = [] then (self, [], Inr model)
      else
        (case get_full_path env lora_name of
           None \<Rightarrow> (self, [GetFullPath lora_name], Inl TypeError)
         | Some lora_path \<Rightarrow>
             if \<not> path_exists env lora_path
               then (self, [GetFullPath lora_name, PathExists lora_path],
                     Inl (Exception (''Lora '' @ lora_name @ '' not found at '' @ lora_path)))
             else
               (case cached_load env self lora_path of
                  (self', evs, Inl e) \<Rightarrow>
                    (self', [GetFullPath lora_name, PathExists lora_path] @ evs, Inl e)
                | (self', evs, Inr lora) \<Rightarrow>
                    (case apply_lora env ops model lora strength blocks_type of
                       (evs', r) \<Rightarrow>
                         (self', [GetFullPath lora_name, PathExists lora_path] @ evs @ evs', r)))))"

text \<open>
  Symbolic tensors, an instance of the tensor operations for running the model: a named
  tensor with its shape, and the operations applied to it.
\<close>

datatype sym_tensor =
    Tensor string "nat list"
  | TrueDiv sym_tensor nat
  | Sqrt sym_tensor
  | Mul sym_tensor sym_tensor

fun sym_shape :: "sym_tensor \<Rightarrow> nat list" where
  "sym_shape (Tensor n s) = s"
| "sym_shape (TrueDiv a n) = sym_shape a"
| "sym_shape (Sqrt a) = sym_shape a"
| "sym_shape (Mul a b) = (if length (sym_shape a) < length (sym_shape b) then sym_shape b else sym_shape a)"

definition sym_torch :: "sym_tensor torch" where
  "sym_torch = \<lparr>shape = sym_shape, true_div = TrueDiv, tsqrt = Sqrt,
                mul = (\<lambda>a b. Some (Mul a b))\<rparr>"

section \<open>Notions used in the statements\<close>

text \<open>Some key of the mapping starts with the sentinel prefix.\<close>

definition has_sentinel_key :: "(string \<times> 't) list \<Rightarrow> bool" where
  "has_sentinel_key lora = list_ex (\<lambda>(key, val). prefix musubi_prefix key) lora"

text \<open>Some key of the mapping starts with the sentinel prefix and contains \<open>alpha\<close>.\<close>

definition has_alpha_key :: "(string \<times> 't) list \<Rightarrow> bool" where
  "has_alpha_key lora =
     list_ex (\<lambda>(key, val). prefix musubi_prefix key \<and> str_contains ''alpha'' key) lora"

text \<open>The paths \<open>load_torch_file\<close> was called on, in order.\<close>

fun deserializations :: "event list \<Rightarrow> string list" where
  "deserializations [] = []"
| "deserializations (LoadTorchFile p # evs) = p # deserializations evs"
| "deserializations (e # evs) = deserializations evs"

text \<open>
  The new key of a key, by its role marker (lines 100 to 108), \<open>None\<close> for a key with
  neither marker.
\<close>

definition new_key_of :: "string \<Rightarrow> string option" where
  "new_key_of key =
     (if str_contains ''lora_down'' key
        then Some (''diffusion_model'' @ ''.'' @ module_name_of (lora_name_of key) @ ''.lora_A.weight'')
      else if str_contains ''lora_up'' key
        then Some (''diffusion_model'' @ ''.'' @ module_name_of (lora_name_of key) @ ''.lora_B.weight'')
      else None)"

text \<open>
  The keys the second loop goes on with: those with the sentinel prefix that do not
  contain \<open>alpha\<close>.
\<close>

definition converted :: "string \<Rightarrow> bool" where
  "converted key = (prefix musubi_prefix key \<and> \<not> str_contains ''alpha'' key)"

text \<open>
  A projection weight of the module \<open>M\<close>: a key the second loop goes on with, that has
  a role marker and whose part before the first dot is \<open>M\<close>.
\<close>

definition projection_of :: "string \<Rightarrow> string \<Rightarrow> bool" where
  "projection_of M key = (converted key \<and> new_key_of key \<noteq> None \<and> lora_name_of key = M)"

text \<open>Collaborators for running \<open>load_lora\<close>: one known file, every path exists.\<close>

definition demo_comfy :: "(sym_tensor, nat, int) comfy" where
  "demo_comfy = \<lparr>get_full_path = (\<lambda>name. if name = ''a.safetensors'' then Some ''/loras/a.safetensors'' else None),
                 path_exists = (\<lambda>p. True),
                 load_torch_file = (\<lambda>p. Inr [(''double_blocks.0.w'', Tensor p [2, 2])]),
                 load_lora_for_models = (\<lambda>model lora strength. Some (model + 2))\<rparr>"

section \<open>Dictionaries and substrings\<close>

lemma dict_set_fresh: "k \<notin> fst ` set d \<Longrightarrow> dict_set d k v = d @ [(k, v)]"
  by (induction d) auto

lemma str_contains_sublist: "str_contains sub s = sublist sub s"
  by (induction s) (auto simp: sublist_Cons_right)

section \<open>Properties of the Key Normalizer\<close>

lemma strip_first_prefix_append:
  "prefix p key \<Longrightarrow> \<forall>q \<in> set ps. \<not> prefix q key
     \<Longrightarrow> strip_first_prefix (ps @ p # qs) key = drop (length p) key"
  by (induction ps) auto

text \<open>
  C8. A key that starts with neither \<open>diffusion_model.\<close> nor \<open>transformer.\<close> is returned
  as it is. A key \<open>p @ rest\<close> with \<open>p\<close> one of the two prefixes is returned as \<open>rest\<close>:
  that prefix is removed once and nothing more, also when \<open>rest\<close> starts with a known
  prefix again. Of the prefixes in the list, the first one that matches is the one removed.
\<close>

theorem convert_key_format_spec:
  "((\<forall>p \<in> set key_prefixes. \<not> prefix p key) \<longrightarrow> convert_key_format key = key) \<and>
   (\<forall>p \<in> set key_prefixes. convert_key_format (p @ rest) = rest) \<and>
   (\<forall>ps p qs. key_prefixes = ps @ p # qs \<and> prefix p key \<and> (\<forall>q \<in> set ps. \<not> prefix q key)
      \<longrightarrow> convert_key_format key = drop (length p) key)"
proof (intro conjI)
  show "(\<forall>p \<in> set key_prefixes. \<not> prefix p key) \<longrightarrow> convert_key_format key = key"
    by (simp add: convert_key_format_def key_prefixes_def)
  show "\<forall>p \<in> set key_prefixes. convert_key_format (p @ rest) = rest"
    by (simp add: convert_key_format_def key_prefixes_def)
  show "\<forall>ps p qs. key_prefixes = ps @ p # qs \<and> prefix p key \<and> (\<forall>q \<in> set ps. \<not> prefix q key)
      \<longrightarrow> convert_key_format key = drop (length p) key"
    by (metis convert_key_format_def strip_first_prefix_append)
qed

theorem convert_key_format_spec_witness:
  "convert_key_format ''single_blocks.0.w'' = ''single_blocks.0.w'' \<and>
   convert_key_format ''diffusion_model.transformer.x'' = ''transformer.x'' \<and>
   convert_key_format ''transformer.diffusion_model.x'' = ''diffusion_model.x''"
proof -
  have a: "\<forall>p \<in> set key_prefixes. \<not> prefix p ''single_blocks.0.w''"
    by (simp add: key_prefixes_def)
  have b: "''diffusion_model.'' \<in> set key_prefixes" "''transformer.'' \<in> set key_prefixes"
    by (simp_all add: key_prefixes_def)
  have c: "key_prefixes = [''diffusion_model.''] @ ''transformer.'' # [] \<and>
      prefix ''transformer.'' ''transformer.diffusion_model.x'' \<and>
      (\<forall>q \<in> set [''diffusion_model.'']. \<not> prefix q ''transformer.diffusion_model.x'')"
    by (simp add: key_prefixes_def)
  from convert_key_format_spec [of "''single_blocks.0.w''" "''transformer.x''"] a b
  have "convert_key_format ''single_blocks.0.w'' = ''single_blocks.0.w''"
    and "convert_key_format (''diffusion_model.'' @ ''transformer.x'') = ''transformer.x''"
    by blast+
  moreover from convert_key_format_spec [of "''transformer.diffusion_model.x''" "[]"] c
  have "convert_key_format ''transformer.diffusion_model.x''
      = drop (length ''transformer.'') ''transformer.diffusion_model.x''"
    by blast
  ultimately show ?thesis by simp
qed

section \<open>Properties of the Block Filter\<close>

lemma filter_loop_filter:
  "distinct (map fst acc @ map fst lora)
     \<Longrightarrow> filter_loop bt lora acc = acc @ filter (\<lambda>(key, val). block_selected bt key) lora"
proof (induction lora arbitrary: acc)
  case Nil
  then show ?case by simp
next
  case (Cons kv lora)
  obtain key val where kv: "kv = (key, val)" by (cases kv)
  have fresh: "key \<notin> fst ` set acc" using Cons.prems kv by auto
  have d: "distinct (map fst (acc @ [(key, val)]) @ map fst lora)"
    using Cons.prems kv by auto
  show ?case
  proof (cases "block_selected bt key")
    case True
    then have "filter_loop bt (kv # lora) acc = filter_loop bt lora (dict_set acc key val)"
      by (auto simp: kv block_selected_def Let_def)
    also have "\<dots> = (acc @ [(key, val)]) @ filter (\<lambda>(key, val). block_selected bt key) lora"
      using Cons.IH [of "acc @ [(key, val)]"] d by (simp add: dict_set_fresh [OF fresh])
    finally show ?thesis using True by (simp add: kv)
  next
    case False
    then have "filter_loop bt (kv # lora) acc = filter_loop bt lora acc"
      by (auto simp: kv block_selected_def Let_def)
    also have "\<dots> = acc @ filter (\<lambda>(key, val). block_selected bt key) lora"
      using Cons.IH [of acc] Cons.prems by simp
    finally show ?thesis using False by (simp add: kv)
  qed
qed

text \<open>
  C1, as the code has it. For a selector other than \<open>all\<close> the Block Filter returns, in
  the order of the input, exactly the entries whose normalized key contains the selector
  \<open>single_blocks\<close> or \<open>double_blocks\<close> as a substring; with any other selector no entry
  is returned.
\<close>

theorem filter_lora_keys_selects:
  assumes "distinct (map fst lora)" and "blocks_type \<noteq> ''all''"
  shows "filter_lora_keys lora blocks_type
           = filter (\<lambda>(key, val). block_selected blocks_type key) lora"
  using assms filter_loop_filter [of "[]" lora blocks_type]
  by (simp add: filter_lora_keys_def)

theorem filter_lora_keys_selects_witness:
  "filter_lora_keys [(''diffusion_model.double_blocks.0.w'', 1::nat),
                     (''transformer.single_blocks.0.w'', 2)] ''double_blocks''
     = [(''diffusion_model.double_blocks.0.w'', 1)]"
proof -
  have d: "distinct (map fst [(''diffusion_model.double_blocks.0.w'', 1::nat),
                     (''transformer.single_blocks.0.w'', 2)])" by simp
  have n: "''double_blocks'' \<noteq> ''all''" by simp
  show ?thesis
    unfolding filter_lora_keys_selects [OF d n]
    by (simp add: block_selected_def convert_key_format_def key_prefixes_def)
qed

text \<open>
  C1, as the claim states it, fails: with the selector \<open>single_blocks\<close> an entry of a
  double block is not returned.
\<close>

theorem filter_lora_keys_not_noop:
  "filter_lora_keys [(''double_blocks.0.w'', 1::nat)] ''single_blocks''
     \<noteq> [(''double_blocks.0.w'', 1)]"
  by (simp add: filter_lora_keys_def convert_key_format_def key_prefixes_def)

section \<open>Format detection\<close>

lemma scan_alphas_musubi:
  "(\<forall>n. m n \<noteq> None \<longrightarrow> b)
     \<Longrightarrow> snd (scan_alphas lora (m, b)) = (b \<or> has_alpha_key lora)"
proof (induction lora arbitrary: m b)
  case Nil
  then show ?case by (simp add: has_alpha_key_def)
next
  case (Cons kv lora)
  obtain key val where kv: "kv = (key, val)" by (cases kv)
  show ?case
  proof (cases "prefix musubi_prefix key \<and> str_contains ''alpha'' key")
    case True
    show ?thesis
    proof (cases "m (lora_name_of key) = None")
      case True
      have ih: "snd (scan_alphas lora (m(lora_name_of key \<mapsto> val), True))
          = (True \<or> has_alpha_key lora)"
        by (rule Cons.IH) simp
      from True \<open>prefix musubi_prefix key \<and> str_contains ''alpha'' key\<close>
      show ?thesis
        by (simp add: kv has_alpha_key_def Let_def ih del: fun_upd_apply)
    next
      case False
      then have b: b using Cons.prems by blast
      have ih: "snd (scan_alphas lora (m, b)) = (b \<or> has_alpha_key lora)"
        by (rule Cons.IH) (rule Cons.prems)
      have "scan_alphas (kv # lora) (m, b) = scan_alphas lora (m, b)"
        using False by (auto simp: kv Let_def)
      then show ?thesis using ih b by simp
    qed
  next
    case False
    have ih: "snd (scan_alphas lora (m, b)) = (b \<or> has_alpha_key lora)"
      by (rule Cons.IH) (rule Cons.prems)
    have "scan_alphas (kv # lora) (m, b) = scan_alphas lora (m, b)"
      using False by (auto simp: kv Let_def)
    moreover have "has_alpha_key (kv # lora) = has_alpha_key lora"
      using False by (auto simp: kv has_alpha_key_def)
    ultimately show ?thesis using ih by simp
  qed
qed

lemma musubi_flag: "snd (scan_alphas lora (Map.empty, False)) = has_alpha_key lora"
  using scan_alphas_musubi [of Map.empty False lora] by simp

text \<open>
  C2, as the code has it. The mapping is taken for the alternate format, and the
  conversion loop runs, if and only if some key starts with the sentinel prefix
  \<open>lora_unet_\<close> and also contains \<open>alpha\<close>; otherwise the input is returned unchanged.
\<close>

theorem check_for_musubi_detection:
  "(has_alpha_key lora \<longrightarrow>
      check_for_musubi ops lora =
        (''Loading Musubi Tuner format LoRA...''
           # fst (convert_items ops (fst (scan_alphas lora (Map.empty, False))) lora []),
         snd (convert_items ops (fst (scan_alphas lora (Map.empty, False))) lora []))) \<and>
   (\<not> has_alpha_key lora \<longrightarrow>
      check_for_musubi ops lora = ([''Loading Diffusers format LoRA...''], Inr lora))"
  using musubi_flag [of lora]
  by (cases "scan_alphas lora (Map.empty, False)")
     (auto simp: check_for_musubi_def split: prod.splits)

theorem check_for_musubi_detection_witness:
  "check_for_musubi sym_torch
     [(''lora_unet_x.alpha'', Tensor ''a'' []),
      (''lora_unet_x.lora_down.weight'', Tensor ''T'' [4, 8])]
     = ([''Loading Musubi Tuner format LoRA...''],
        Inr [(''diffusion_model.x.lora_A.weight'',
              Mul (Tensor ''T'' [4, 8]) (Sqrt (TrueDiv (Tensor ''a'' []) 4)))]) \<and>
   check_for_musubi sym_torch [(''lora_unet_x.lora_down.weight'', Tensor ''T'' [4, 8])]
     = ([''Loading Diffusers format LoRA...''],
        Inr [(''lora_unet_x.lora_down.weight'', Tensor ''T'' [4, 8])])"
proof -
  have a: "has_alpha_key [(''lora_unet_x.alpha'', Tensor ''a'' []),
      (''lora_unet_x.lora_down.weight'', Tensor ''T'' [4, 8])]"
    by (simp add: has_alpha_key_def musubi_prefix_def)
  have b: "\<not> has_alpha_key [(''lora_unet_x.lora_down.weight'', Tensor ''T'' [4, 8])]"
    by (simp add: has_alpha_key_def musubi_prefix_def)
  show ?thesis
    using check_for_musubi_detection [of "[(''lora_unet_x.alpha'', Tensor ''a'' []),
      (''lora_unet_x.lora_down.weight'', Tensor ''T'' [4, 8])]" sym_torch] a
      check_for_musubi_detection [of "[(''lora_unet_x.lora_down.weight'', Tensor ''T'' [4, 8])]" sym_torch] b
    by (simp add: musubi_prefix_def lora_name_of_def convert_entry_def new_key_and_dim_def
          module_name_of_def shape_at_def sym_torch_def)
qed

text \<open>
  C2, as the claim states it, fails: a mapping with a sentinel-prefixed key and no alpha
  key is not converted, it is returned unchanged as a Diffusers mapping.
\<close>

theorem check_for_musubi_sentinel_not_enough:
  "has_sentinel_key [(''lora_unet_x.lora_down.weight'', Tensor ''T'' [4, 8])] \<and>
   check_for_musubi sym_torch [(''lora_unet_x.lora_down.weight'', Tensor ''T'' [4, 8])]
     = ([''Loading Diffusers format LoRA...''],
        Inr [(''lora_unet_x.lora_down.weight'', Tensor ''T'' [4, 8])])"
  by (simp add: has_sentinel_key_def check_for_musubi_def musubi_prefix_def)

text \<open>
  C5. A mapping in which no key starts with \<open>lora_unet_\<close> is returned unchanged, the
  same entries in the same order.
\<close>

theorem check_for_musubi_canonical:
  assumes "\<forall>(key, val) \<in> set lora. \<not> prefix musubi_prefix key"
  shows "check_for_musubi ops lora = ([''Loading Diffusers format LoRA...''], Inr lora)"
proof -
  have "\<not> has_alpha_key lora"
    using assms by (auto simp: has_alpha_key_def list_ex_iff)
  then show ?thesis
    using musubi_flag [of lora]
    by (cases "scan_alphas lora (Map.empty, False)") (auto simp: check_for_musubi_def)
qed

theorem check_for_musubi_canonical_witness:
  "check_for_musubi sym_torch
     [(''diffusion_model.single_blocks.0.linear1.lora_A.weight'', Tensor ''A'' [4, 8]),
      (''diffusion_model.single_blocks.0.linear1.lora_B.weight'', Tensor ''B'' [8, 4])]
   = ([''Loading Diffusers format LoRA...''],
      Inr [(''diffusion_model.single_blocks.0.linear1.lora_A.weight'', Tensor ''A'' [4, 8]),
           (''diffusion_model.single_blocks.0.linear1.lora_B.weight'', Tensor ''B'' [8, 4])])"
proof -
  have "\<forall>(key, val) \<in> set
     [(''diffusion_model.single_blocks.0.linear1.lora_A.weight'', Tensor ''A'' [4, 8]),
      (''diffusion_model.single_blocks.0.linear1.lora_B.weight'', Tensor ''B'' [8, 4])].
        \<not> prefix musubi_prefix key"
    by (simp add: musubi_prefix_def)
  then show ?thesis by (rule check_for_musubi_canonical)
qed

section \<open>The end-to-end scenario\<close>

lemma e2e_names:
  "lora_name_of ''lora_unet_single_blocks_0_attn_qkv.lora_down.weight''
     = ''lora_unet_single_blocks_0_attn_qkv''"
  "lora_name_of ''lora_unet_single_blocks_0_attn_qkv.lora_up.weight''
     = ''lora_unet_single_blocks_0_attn_qkv''"
  "lora_name_of ''lora_unet_single_blocks_0_attn_qkv.alpha''
     = ''lora_unet_single_blocks_0_attn_qkv''"
  "module_name_of ''lora_unet_single_blocks_0_attn_qkv'' = ''single_blocks.0.attn_qkv''"
  by (simp_all add: lora_name_of_def module_name_of_def musubi_prefix_def)

text \<open>
  C3. The three-key mapping of one module, where \<open>T1.shape[0]\<close> is \<open>d1\<close>,
  \<open>T2.shape[1]\<close> is \<open>d2\<close>, and \<open>S1\<close>, \<open>S2\<close> are the products
  \<open>T1 * sqrt(a / d1)\<close> and \<open>T2 * sqrt(a / d2)\<close>, is converted to exactly the two
  keys \<open>...lora_A.weight\<close> and \<open>...lora_B.weight\<close> with the values \<open>S1\<close> and \<open>S2\<close>.
\<close>

theorem check_for_musubi_end_to_end:
  assumes "shape_at ops T1 0 = Inr d1" and "shape_at ops T2 1 = Inr d2"
    and "mul ops T1 (tsqrt ops (true_div ops a d1)) = Some S1"
    and "mul ops T2 (tsqrt ops (true_div ops a d2)) = Some S2"
  shows "check_for_musubi ops
           [(''lora_unet_single_blocks_0_attn_qkv.lora_down.weight'', T1),
            (''lora_unet_single_blocks_0_attn_qkv.lora_up.weight'', T2),
            (''lora_unet_single_blocks_0_attn_qkv.alpha'', a)]
         = ([''Loading Musubi Tuner format LoRA...''],
            Inr [(''diffusion_model.single_blocks.0.attn_qkv.lora_A.weight'', S1),
                 (''diffusion_model.single_blocks.0.attn_qkv.lora_B.weight'', S2)])"
  using assms
  by (simp add: check_for_musubi_def e2e_names convert_entry_def new_key_and_dim_def
        musubi_prefix_def)

theorem check_for_musubi_end_to_end_witness:
  "check_for_musubi sym_torch
           [(''lora_unet_single_blocks_0_attn_qkv.lora_down.weight'', Tensor ''T1'' [4, 3072]),
            (''lora_unet_single_blocks_0_attn_qkv.lora_up.weight'', Tensor ''T2'' [9216, 4]),
            (''lora_unet_single_blocks_0_attn_qkv.alpha'', Tensor ''a'' [])]
         = ([''Loading Musubi Tuner format LoRA...''],
            Inr [(''diffusion_model.single_blocks.0.attn_qkv.lora_A.weight'',
                  Mul (Tensor ''T1'' [4, 3072]) (Sqrt (TrueDiv (Tensor ''a'' []) 4))),
                 (''diffusion_model.single_blocks.0.attn_qkv.lora_B.weight'',
                  Mul (Tensor ''T2'' [9216, 4]) (Sqrt (TrueDiv (Tensor ''a'' []) 4)))])"
  by (rule check_for_musubi_end_to_end) (simp_all add: shape_at_def sym_torch_def)

section \<open>Properties of \<open>load_lora\<close>\<close>

text \<open>
  C10. With an empty \<open>lora_name\<close> the operation returns the model it was given: the
  loader and its cache are unchanged and no collaborator is called (no event).
\<close>

theorem load_lora_empty_name:
  "load_lora env ops self model [] strength blocks_type = (self, [], Inr model)"
  by (simp add: load_lora_def)

theorem load_lora_empty_name_witness:
  "load_lora demo_comfy sym_torch \<lparr>loaded_lora = None\<rparr> (0::nat) [] (3::int) ''single_blocks''
     = (\<lparr>loaded_lora = None\<rparr>, [], Inr 0)"
  by (rule load_lora_empty_name)

lemma deserializations_append:
  "deserializations (xs @ ys) = deserializations xs @ deserializations ys"
  by (induction xs rule: deserializations.induct) simp_all

lemma deserializations_Print: "deserializations (map Print out) = []"
  by (induction out) simp_all

lemma deserializations_apply_lora:
  "deserializations (fst (apply_lora env ops model lora strength blocks_type)) = []"
  by (auto simp: apply_lora_def deserializations_append deserializations_Print Let_def
        split: prod.splits sum.splits)

lemma cached_load_hit:
  "loaded_lora self = Some (P, m) \<Longrightarrow> cached_load env self P = (self, [], Inr m)"
  by (simp add: cached_load_def)

lemma cached_load_miss:
  "\<forall>m'. loaded_lora self \<noteq> Some (P, m') \<Longrightarrow> load_torch_file env P = Inr m
     \<Longrightarrow> cached_load env self P = (self\<lparr>loaded_lora := Some (P, m)\<rparr>, [LoadTorchFile P], Inr m)"
  by (cases "loaded_lora self") (auto simp: cached_load_def)

text \<open>
  C4. A request that passes the checks on the name and resolves to the path \<open>P\<close>:
  when the cache holds an entry for \<open>P\<close>, the cached mapping is what the cache step
  returns and what is converted, filtered and applied, the loader is unchanged and
  \<open>load_torch_file\<close> is not called; when the cache is empty or holds another path and the
  deserializer returns the mapping \<open>m\<close>, \<open>load_torch_file\<close> is called exactly once, on
  \<open>P\<close>, the cache afterwards holds \<open>(P, m)\<close> in place of the old entry, and \<open>m\<close> is
  what is converted, filtered and applied.
\<close>

theorem load_lora_cache:
  assumes "lora_name \<noteq> []" and "get_full_path env lora_name = Some P"
    and "path_exists env P"
  shows "(loaded_lora self = Some (P, m) \<longrightarrow>
            cached_load env self P = (self, [], Inr m) \<and>
            load_lora env ops self model lora_name strength blocks_type =
              (self,
               [GetFullPath lora_name, PathExists P]
                 @ fst (apply_lora env ops model m strength blocks_type),
               snd (apply_lora env ops model m strength blocks_type)) \<and>
            deserializations
              (fst (snd (load_lora env ops self model lora_name strength blocks_type))) = [])
       \<and>
         ((\<forall>m'. loaded_lora self \<noteq> Some (P, m')) \<and> load_torch_file env P = Inr m \<longrightarrow>
            cached_load env self P =
              (self\<lparr>loaded_lora := Some (P, m)\<rparr>, [LoadTorchFile P], Inr m) \<and>
            load_lora env ops self model lora_name strength blocks_type =
              (self\<lparr>loaded_lora := Some (P, m)\<rparr>,
               [GetFullPath lora_name, PathExists P, LoadTorchFile P]
                 @ fst (apply_lora env ops model m strength blocks_type),
               snd (apply_lora env ops model m strength blocks_type)) \<and>
            deserializations
              (fst (snd (load_lora env ops self model lora_name strength blocks_type))) = [P])"
proof (intro conjI impI)
  assume hit: "loaded_lora self = Some (P, m)"
  show c: "cached_load env self P = (self, [], Inr m)"
    by (rule cached_load_hit [OF hit])
  show l: "load_lora env ops self model lora_name strength blocks_type =
      (self, [GetFullPath lora_name, PathExists P]
                 @ fst (apply_lora env ops model m strength blocks_type),
       snd (apply_lora env ops model m strength blocks_type))"
    using assms c by (simp add: load_lora_def split: prod.splits)
  show "deserializations
      (fst (snd (load_lora env ops self model lora_name strength blocks_type))) = []"
    by (simp add: l deserializations_apply_lora)
next
  assume miss: "(\<forall>m'. loaded_lora self \<noteq> Some (P, m')) \<and> load_torch_file env P = Inr m"
  show c: "cached_load env self P =
      (self\<lparr>loaded_lora := Some (P, m)\<rparr>, [LoadTorchFile P], Inr m)"
    using miss by (simp add: cached_load_miss)
  show l: "load_lora env ops self model lora_name strength blocks_type =
      (self\<lparr>loaded_lora := Some (P, m)\<rparr>,
       [GetFullPath lora_name, PathExists P, LoadTorchFile P]
          @ fst (apply_lora env ops model m strength blocks_type),
       snd (apply_lora env ops model m strength blocks_type))"
    using assms c by (simp add: load_lora_def split: prod.splits)
  show "deserializations
      (fst (snd (load_lora env ops self model lora_name strength blocks_type))) = [P]"
    by (simp add: l deserializations_apply_lora)
qed

theorem load_lora_cache_witness:
  "load_lora demo_comfy sym_torch
      \<lparr>loaded_lora = Some (''/loras/a.safetensors'', [(''single_blocks.0.w'', Tensor ''c'' [2])])\<rparr>
      (0::nat) ''a.safetensors'' (1::int) ''all''
    = (\<lparr>loaded_lora = Some (''/loras/a.safetensors'', [(''single_blocks.0.w'', Tensor ''c'' [2])])\<rparr>,
       [GetFullPath ''a.safetensors'', PathExists ''/loras/a.safetensors'',
        Print ''Loading Diffusers format LoRA...'', LoadLoraForModels [''single_blocks.0.w'']],
       Inr 2) \<and>
   load_lora demo_comfy sym_torch
      \<lparr>loaded_lora = Some (''/loras/b.safetensors'', [(''single_blocks.0.w'', Tensor ''c'' [2])])\<rparr>
      (0::nat) ''a.safetensors'' (1::int) ''all''
    = (\<lparr>loaded_lora = Some (''/loras/a.safetensors'',
                           [(''double_blocks.0.w'', Tensor ''/loras/a.safetensors'' [2, 2])])\<rparr>,
       [GetFullPath ''a.safetensors'', PathExists ''/loras/a.safetensors'',
        LoadTorchFile ''/loras/a.safetensors'',
        Print ''Loading Diffusers format LoRA...'', LoadLoraForModels [''double_blocks.0.w'']],
       Inr 2)"
proof -
  have n: "''a.safetensors'' \<noteq> []" by simp
  have g: "get_full_path demo_comfy ''a.safetensors'' = Some ''/loras/a.safetensors''"
    by (simp add: demo_comfy_def)
  have e: "path_exists demo_comfy ''/loras/a.safetensors''"
    by (simp add: demo_comfy_def)
  have ap1: "apply_lora demo_comfy sym_torch (0::nat)
      [(''single_blocks.0.w'', Tensor ''c'' [2])] (1::int) ''all''
      = ([Print ''Loading Diffusers format LoRA...'', LoadLoraForModels [''single_blocks.0.w'']],
         Inr 2)"
    by (simp add: apply_lora_def check_for_musubi_def filter_lora_keys_def demo_comfy_def
          musubi_prefix_def)
  have ap2: "apply_lora demo_comfy sym_torch (0::nat)
      [(''double_blocks.0.w'', Tensor ''/loras/a.safetensors'' [2, 2])] (1::int) ''all''
      = ([Print ''Loading Diffusers format LoRA...'', LoadLoraForModels [''double_blocks.0.w'']],
         Inr 2)"
    by (simp add: apply_lora_def check_for_musubi_def filter_lora_keys_def demo_comfy_def
          musubi_prefix_def)
  have hit: "loaded_lora \<lparr>loaded_lora = Some (''/loras/a.safetensors'',
      [(''single_blocks.0.w'', Tensor ''c'' [2])])\<rparr>
      = Some (''/loras/a.safetensors'', [(''single_blocks.0.w'', Tensor ''c'' [2])])"
    by simp
  have miss: "(\<forall>m'. loaded_lora \<lparr>loaded_lora = Some (''/loras/b.safetensors'',
      [(''single_blocks.0.w'', Tensor ''c'' [2])])\<rparr> \<noteq> Some (''/loras/a.safetensors'', m')) \<and>
      load_torch_file demo_comfy ''/loras/a.safetensors''
        = Inr [(''double_blocks.0.w'', Tensor ''/loras/a.safetensors'' [2, 2])]"
    by (simp add: demo_comfy_def)
  show ?thesis
    using load_lora_cache [OF n g e, of _ "[(''single_blocks.0.w'', Tensor ''c'' [2])]",
            THEN conjunct1, rule_format, OF hit, THEN conjunct2, THEN conjunct1,
            of sym_torch 0 1 "''all''"]
          load_lora_cache [OF n g e, THEN conjunct2, rule_format, OF miss,
            THEN conjunct2, THEN conjunct1, of sym_torch 0 1 "''all''"]
    by (simp add: ap1 ap2)
qed

section \<open>The conversion loop\<close>

lemma new_key_and_dim_new_key:
  "map_option fst (new_key_and_dim ops key w) = new_key_of key"
  by (simp add: new_key_and_dim_def new_key_of_def Let_def)

lemma convert_entry_not_converted:
  "\<not> converted key \<Longrightarrow> convert_entry ops al (key, w) = ([], Inr None)"
  by (auto simp: convert_entry_def converted_def)

lemma convert_entry_unexpected:
  "converted key \<Longrightarrow> new_key_of key = None
     \<Longrightarrow> convert_entry ops al (key, w)
           = ([''unexpected key: '' @ key @ '' in Musubi LoRA format''], Inr None)"
  using new_key_and_dim_new_key [of ops key w]
  by (auto simp: convert_entry_def converted_def)

lemma convert_entry_stores:
  "convert_entry ops al (key, w) = (msgs, Inr (Some (nk, v)))
     \<Longrightarrow> converted key \<and> new_key_of key = Some nk"
  using new_key_and_dim_new_key [of ops key w]
  by (auto simp: convert_entry_def converted_def split: if_splits option.splits sum.splits)

lemma convert_items_append:
  "convert_items ops al (xs @ ys) conv =
     (case convert_items ops al xs conv of
        (o1, Inl e) \<Rightarrow> (o1, Inl e)
      | (o1, Inr c1) \<Rightarrow> (case convert_items ops al ys c1 of (o2, r) \<Rightarrow> (o1 @ o2, r)))"
proof (induction xs arbitrary: conv)
  case Nil
  then show ?case by (simp split: prod.splits)
next
  case (Cons kv xs)
  show ?case
    by (cases "convert_entry ops al kv")
       (auto simp: Cons.IH split: prod.splits sum.splits option.splits)
qed

lemma convert_items_filter:
  "\<forall>kv \<in> set lora. \<not> P kv \<longrightarrow> convert_entry ops al kv = ([], Inr None)
     \<Longrightarrow> convert_items ops al (filter P lora) conv = convert_items ops al lora conv"
  by (induction lora arbitrary: conv) (auto split: prod.splits sum.splits option.splits)

lemma scan_alphas_filter:
  "\<forall>(key, val) \<in> set lora. \<not> P (key, val)
       \<longrightarrow> \<not> (prefix musubi_prefix key \<and> str_contains ''alpha'' key)
     \<Longrightarrow> scan_alphas (filter P lora) st = scan_alphas lora st"
proof (induction lora arbitrary: st)
  case Nil
  then show ?case by simp
next
  case (Cons kv lora)
  obtain key val where kv: "kv = (key, val)" by (cases kv)
  obtain m b where st: "st = (m, b)" by (cases st)
  have ih: "\<And>st. scan_alphas (filter P lora) st = scan_alphas lora st"
    using Cons.prems by (intro Cons.IH) auto
  show ?case
  proof (cases "P kv")
    case True
    then show ?thesis by (simp add: kv st ih Let_def)
  next
    case False
    then have "\<not> (prefix musubi_prefix key \<and> str_contains ''alpha'' key)"
      using Cons.prems kv by auto
    then show ?thesis using False by (auto simp: kv st ih Let_def)
  qed
qed

lemma has_alpha_key_filter:
  "\<forall>(key, val) \<in> set lora. \<not> P (key, val)
       \<longrightarrow> \<not> (prefix musubi_prefix key \<and> str_contains ''alpha'' key)
     \<Longrightarrow> has_alpha_key (filter P lora) = has_alpha_key lora"
  by (auto simp: has_alpha_key_def list_ex_iff)

lemma check_for_musubi_filter:
  assumes "has_alpha_key lora"
    and "\<forall>(key, val) \<in> set lora. \<not> P (key, val) \<longrightarrow> \<not> prefix musubi_prefix key"
  shows "check_for_musubi ops (filter P lora) = check_for_musubi ops lora"
proof -
  have a: "\<forall>(key, val) \<in> set lora. \<not> P (key, val)
       \<longrightarrow> \<not> (prefix musubi_prefix key \<and> str_contains ''alpha'' key)"
    using assms(2) by auto
  have b: "\<forall>kv \<in> set lora. \<not> P kv \<longrightarrow> convert_entry ops al kv = ([], Inr None)" for al
    using assms(2) by (auto simp: convert_entry_not_converted converted_def)
  obtain al where al: "scan_alphas lora (Map.empty, False) = (al, True)"
    using musubi_flag [of lora] assms(1)
    by (cases "scan_alphas lora (Map.empty, False)") auto
  show ?thesis
    by (simp add: check_for_musubi_def scan_alphas_filter [OF a] al convert_items_filter [OF b])
qed

lemma set_dict_set: "set (dict_set d k v) \<subseteq> insert (k, v) (set d)"
  by (induction d) (auto split: if_splits)

lemma convert_items_origin:
  "convert_items ops al items conv = (log, Inr out) \<Longrightarrow> (nk, v) \<in> set out
     \<Longrightarrow> (nk, v) \<in> set conv \<or>
         (\<exists>(key, w) \<in> set items. converted key \<and> new_key_of key = Some nk)"
proof (induction items arbitrary: conv log)
  case Nil
  then show ?case by simp
next
  case (Cons kv items)
  obtain key w where kv: "kv = (key, w)" by (cases kv)
  obtain msgs r where ce: "convert_entry ops al (key, w) = (msgs, r)"
    by (cases "convert_entry ops al (key, w)")
  show ?case
  proof (cases r)
    case (Inl e)
    then show ?thesis using Cons.prems ce kv by simp
  next
    case (Inr st)
    show ?thesis
    proof (cases st)
      case None
      then obtain log' where "convert_items ops al items conv = (log', Inr out)"
        using Cons.prems(1) ce kv Inr by (auto split: prod.splits)
      from Cons.IH [OF this Cons.prems(2)] show ?thesis by auto
    next
      case (Some p)
      obtain nk' v' where p: "p = (nk', v')" by (cases p)
      then obtain log' where
        "convert_items ops al items (dict_set conv nk' v') = (log', Inr out)"
        using Cons.prems(1) ce kv Inr Some by (auto split: prod.splits)
      from Cons.IH [OF this Cons.prems(2)]
      have "(nk, v) \<in> set (dict_set conv nk' v') \<or>
         (\<exists>(key, w) \<in> set items. converted key \<and> new_key_of key = Some nk)" .
      moreover have "converted key \<and> new_key_of key = Some nk'"
        using convert_entry_stores [of ops al key w msgs nk' v'] ce Inr Some p by simp
      ultimately show ?thesis
        using set_dict_set [of conv nk' v'] kv by auto
    qed
  qed
qed

text \<open>
  C9, as the code has it. When the conversion branch is taken, the entries whose key does
  not start with \<open>lora_unet_\<close> contribute nothing: the printed lines and the result are
  those of the mapping without them (all of them, or any one of them), so no diagnostic
  is printed for them, and every key of the output is the new key of an entry with the
  sentinel prefix.
\<close>

theorem check_for_musubi_drops_other_keys:
  assumes "has_alpha_key lora"
  shows "check_for_musubi ops lora
           = check_for_musubi ops (filter (\<lambda>(key, val). prefix musubi_prefix key) lora) \<and>
         (\<forall>k. \<not> prefix musubi_prefix k \<longrightarrow>
            check_for_musubi ops lora
              = check_for_musubi ops (filter (\<lambda>(key, val). key \<noteq> k) lora)) \<and>
         (\<forall>log out nk v. check_for_musubi ops lora = (log, Inr out) \<and> (nk, v) \<in> set out \<longrightarrow>
            (\<exists>(key, w) \<in> set lora. converted key \<and> new_key_of key = Some nk))"
proof (intro conjI allI impI)
  show "check_for_musubi ops lora
      = check_for_musubi ops (filter (\<lambda>(key, val). prefix musubi_prefix key) lora)"
    using check_for_musubi_filter [OF assms, of "\<lambda>(key, val). prefix musubi_prefix key" ops]
    by simp
next
  fix k assume "\<not> prefix musubi_prefix k"
  then show "check_for_musubi ops lora
      = check_for_musubi ops (filter (\<lambda>(key, val). key \<noteq> k) lora)"
    using check_for_musubi_filter [OF assms, of "\<lambda>(key, val). key \<noteq> k" ops] by auto
next
  fix log out nk v
  assume h: "check_for_musubi ops lora = (log, Inr out) \<and> (nk, v) \<in> set out"
  obtain al where al: "scan_alphas lora (Map.empty, False) = (al, True)"
    using musubi_flag [of lora] assms by (cases "scan_alphas lora (Map.empty, False)") auto
  from h al obtain log' where "convert_items ops al lora [] = (log', Inr out)"
    by (auto simp: check_for_musubi_def split: prod.splits)
  from convert_items_origin [OF this, of nk v] h
  show "\<exists>(key, w) \<in> set lora. converted key \<and> new_key_of key = Some nk" by simp
qed

theorem check_for_musubi_drops_other_keys_witness:
  "check_for_musubi sym_torch
     [(''lora_unet_x.alpha'', Tensor ''a'' []),
      (''transformer.y.lora_A.weight'', Tensor ''U'' [4, 8]),
      (''lora_unet_x.lora_down.weight'', Tensor ''T'' [4, 8])]
   = check_for_musubi sym_torch
     [(''lora_unet_x.alpha'', Tensor ''a'' []),
      (''lora_unet_x.lora_down.weight'', Tensor ''T'' [4, 8])]"
proof -
  have a: "has_alpha_key [(''lora_unet_x.alpha'', Tensor ''a'' []),
      (''transformer.y.lora_A.weight'', Tensor ''U'' [4, 8]),
      (''lora_unet_x.lora_down.weight'', Tensor ''T'' [4, 8])]"
    by (simp add: has_alpha_key_def musubi_prefix_def)
  show ?thesis
    using check_for_musubi_drops_other_keys [OF a, of sym_torch, THEN conjunct1]
    by (simp add: musubi_prefix_def)
qed

text \<open>
  C9, as the claim states it, fails on a collision of names: a key without the sentinel
  prefix is a key of the output when it is the new key of a sentinel-prefixed entry;
  the value there is the converted one, not its own.
\<close>

theorem check_for_musubi_name_collision:
  "\<not> prefix musubi_prefix ''diffusion_model.x.lora_A.weight'' \<and>
   check_for_musubi sym_torch
     [(''lora_unet_x.alpha'', Tensor ''a'' []),
      (''lora_unet_x.lora_down.weight'', Tensor ''T'' [4, 8]),
      (''diffusion_model.x.lora_A.weight'', Tensor ''U'' [4, 8])]
   = ([''Loading Musubi Tuner format LoRA...''],
      Inr [(''diffusion_model.x.lora_A.weight'',
            Mul (Tensor ''T'' [4, 8]) (Sqrt (TrueDiv (Tensor ''a'' []) 4)))])"
  by (simp add: check_for_musubi_def musubi_prefix_def lora_name_of_def convert_entry_def
        new_key_and_dim_def module_name_of_def shape_at_def sym_torch_def)

section \<open>Keys without a role marker\<close>

lemma scan_alphas_skip:
  "\<not> (prefix musubi_prefix key \<and> str_contains ''alpha'' key)
     \<Longrightarrow> scan_alphas (xs @ (key, w) # ys) st = scan_alphas (xs @ ys) st"
proof (induction xs arbitrary: st)
  case Nil
  then show ?case by (cases st) (auto simp: Let_def)
next
  case (Cons kv xs)
  obtain k v where kv: "kv = (k, v)" by (cases kv)
  obtain m b where st: "st = (m, b)" by (cases st)
  show ?case using Cons.prems by (simp add: kv st Cons.IH Let_def)
qed

lemma has_alpha_key_skip:
  "\<not> (prefix musubi_prefix key \<and> str_contains ''alpha'' key)
     \<Longrightarrow> has_alpha_key (xs @ (key, w) # ys) = has_alpha_key (xs @ ys)"
  by (auto simp: has_alpha_key_def list_ex_iff)

lemma convert_items_skip:
  assumes "convert_entry ops al kv = (msgs, Inr None)"
  shows "snd (convert_items ops al (xs @ kv # ys) conv) = snd (convert_items ops al (xs @ ys) conv)
    \<and> (\<forall>out. snd (convert_items ops al (xs @ kv # ys) conv) = Inr out \<longrightarrow>
         (\<exists>l1 l2. fst (convert_items ops al (xs @ kv # ys) conv) = l1 @ msgs @ l2 \<and>
                  fst (convert_items ops al (xs @ ys) conv) = l1 @ l2))"
proof -
  obtain o1 r1 where x: "convert_items ops al xs conv = (o1, r1)"
    by (cases "convert_items ops al xs conv")
  show ?thesis
  proof (cases r1)
    case (Inl e)
    then show ?thesis using x by (simp add: convert_items_append)
  next
    case (Inr c1)
    obtain o2 r2 where y: "convert_items ops al ys c1 = (o2, r2)"
      by (cases "convert_items ops al ys c1")
    have full: "convert_items ops al (xs @ kv # ys) conv = (o1 @ msgs @ o2, r2)"
      using x Inr y assms by (simp add: convert_items_append)
    have without: "convert_items ops al (xs @ ys) conv = (o1 @ o2, r2)"
      using x Inr y by (simp add: convert_items_append)
    show ?thesis unfolding full without by auto
  qed
qed

text \<open>
  C7. In the conversion branch, an entry whose key has the sentinel prefix, does not
  contain \<open>alpha\<close> and contains neither \<open>lora_down\<close> nor \<open>lora_up\<close> stores nothing
  and prints one line naming the key. The mapping returned (or the exception raised) is
  the one for the input without the entry, so the other entries, before and after, are
  converted as usual; and when a mapping is returned, the printed lines are those for
  the input without the entry, with the diagnostic inserted.
\<close>

theorem unexpected_key_skipped:
  assumes "prefix musubi_prefix key" and "\<not> str_contains ''alpha'' key"
    and "\<not> str_contains ''lora_down'' key" and "\<not> str_contains ''lora_up'' key"
    and "has_alpha_key (xs @ ys)"
  shows "convert_entry ops al (key, w)
           = ([''unexpected key: '' @ key @ '' in Musubi LoRA format''], Inr None) \<and>
         snd (check_for_musubi ops (xs @ (key, w) # ys)) = snd (check_for_musubi ops (xs @ ys)) \<and>
         (\<forall>out. snd (check_for_musubi ops (xs @ (key, w) # ys)) = Inr out \<longrightarrow>
            (\<exists>l1 l2. fst (check_for_musubi ops (xs @ (key, w) # ys))
                        = l1 @ (''unexpected key: '' @ key @ '' in Musubi LoRA format'') # l2 \<and>
                     fst (check_for_musubi ops (xs @ ys)) = l1 @ l2))"
proof -
  let ?msg = "''unexpected key: '' @ key @ '' in Musubi LoRA format''"
  have c: "converted key" and n: "new_key_of key = None"
    using assms by (simp_all add: converted_def new_key_of_def)
  have ce: "convert_entry ops al (key, w) = ([?msg], Inr None)" for al
    by (rule convert_entry_unexpected [OF c n])
  have na: "\<not> (prefix musubi_prefix key \<and> str_contains ''alpha'' key)"
    using assms(2) by simp
  obtain al' where al: "scan_alphas (xs @ ys) (Map.empty, False) = (al', True)"
    using musubi_flag [of "xs @ ys"] assms(5)
    by (cases "scan_alphas (xs @ ys) (Map.empty, False)") auto
  have al2: "scan_alphas (xs @ (key, w) # ys) (Map.empty, False) = (al', True)"
    using al by (simp add: scan_alphas_skip [OF na])
  obtain f rf where full: "convert_items ops al' (xs @ (key, w) # ys) [] = (f, rf)"
    by (cases "convert_items ops al' (xs @ (key, w) # ys) []")
  obtain g rg where wo: "convert_items ops al' (xs @ ys) [] = (g, rg)"
    by (cases "convert_items ops al' (xs @ ys) []")
  from convert_items_skip [OF ce [of al'], of xs ys "[]"] full wo
  have r: "rf = rg" and
    l: "\<forall>out. rf = Inr out \<longrightarrow> (\<exists>l1 l2. f = l1 @ [?msg] @ l2 \<and> g = l1 @ l2)"
    by simp_all
  have cf: "check_for_musubi ops (xs @ (key, w) # ys)
      = (''Loading Musubi Tuner format LoRA...'' # f, rf)"
    by (simp add: check_for_musubi_def al2 full)
  have cw: "check_for_musubi ops (xs @ ys) = (''Loading Musubi Tuner format LoRA...'' # g, rg)"
    by (simp add: check_for_musubi_def al wo)
  have "\<forall>out. rf = Inr out \<longrightarrow>
      (\<exists>l1 l2. ''Loading Musubi Tuner format LoRA...'' # f = l1 @ ?msg # l2 \<and>
               ''Loading Musubi Tuner format LoRA...'' # g = l1 @ l2)"
  proof (intro allI impI)
    fix out assume "rf = Inr out"
    then obtain l1 l2 where "f = l1 @ [?msg] @ l2" "g = l1 @ l2" using l by blast
    then have "''Loading Musubi Tuner format LoRA...'' # f
          = (''Loading Musubi Tuner format LoRA...'' # l1) @ ?msg # l2 \<and>
        ''Loading Musubi Tuner format LoRA...'' # g
          = (''Loading Musubi Tuner format LoRA...'' # l1) @ l2" by simp
    then show "\<exists>l1 l2. ''Loading Musubi Tuner format LoRA...'' # f = l1 @ ?msg # l2 \<and>
               ''Loading Musubi Tuner format LoRA...'' # g = l1 @ l2" by blast
  qed
  then show ?thesis using ce [of al] r by (simp add: cf cw)
qed

theorem unexpected_key_skipped_witness:
  "snd (check_for_musubi sym_torch
         ([(''lora_unet_x.alpha'', Tensor ''a'' [])]
          @ (''lora_unet_x.bias'', Tensor ''b'' [4])
          # [(''lora_unet_x.lora_down.weight'', Tensor ''T'' [4, 8])]))
   = snd (check_for_musubi sym_torch
         ([(''lora_unet_x.alpha'', Tensor ''a'' [])]
          @ [(''lora_unet_x.lora_down.weight'', Tensor ''T'' [4, 8])]))"
proof -
  have p: "prefix musubi_prefix ''lora_unet_x.bias''" by (simp add: musubi_prefix_def)
  have a: "\<not> str_contains ''alpha'' ''lora_unet_x.bias''" by simp
  have d: "\<not> str_contains ''lora_down'' ''lora_unet_x.bias''" by simp
  have u: "\<not> str_contains ''lora_up'' ''lora_unet_x.bias''" by simp
  have h: "has_alpha_key ([(''lora_unet_x.alpha'', Tensor ''a'' [])]
          @ [(''lora_unet_x.lora_down.weight'', Tensor ''T'' [4, 8])])"
    by (simp add: has_alpha_key_def musubi_prefix_def)
  show ?thesis
    using unexpected_key_skipped [OF p a d u h, of sym_torch Map.empty "Tensor ''b'' [4]"]
    by blast
qed

section \<open>Modules without alpha\<close>

lemma map_of_dict_set: "map_of (dict_set d k v) = (map_of d)(k \<mapsto> v)"
  by (induction d) (auto simp: fun_eq_iff)

lemma convert_entry_missing:
  assumes "converted key" and "new_key_of key = Some nk" and "al (lora_name_of key) = None"
    and "convert_entry ops al (key, w) = (msgs, Inr st)"
  shows "msgs = [''missing alpha for '' @ lora_name_of key] \<and> st = Some (nk, w)"
  using assms new_key_and_dim_new_key [of ops key w]
  by (auto simp: convert_entry_def converted_def split: option.splits sum.splits)

lemma convert_entry_missing_step:
  assumes "prefix musubi_prefix key" and "\<not> str_contains ''alpha'' key"
    and "new_key_and_dim ops key w = Some (nk, Inr dim)" and "al (lora_name_of key) = None"
  shows "convert_entry ops al (key, w)
           = ([''missing alpha for '' @ lora_name_of key], Inr (Some (nk, w)))"
  using assms by (simp add: convert_entry_def)

lemma count_entry_scaled:
  assumes "convert_entry ops al (key, w) = (msgs, Inr st)" and "al (lora_name_of key) = Some alpha"
  shows "count_list msgs (''missing alpha for '' @ M) = 0"
  using assms
  by (auto simp: convert_entry_def split: if_splits option.splits sum.splits)

lemma convert_entry_count_missing:
  assumes "convert_entry ops al (key, w) = (msgs, Inr st)" and "al M = None"
  shows "count_list msgs (''missing alpha for '' @ M) = (if projection_of M key then 1 else 0)"
proof (cases "converted key")
  case False
  then show ?thesis
    using assms convert_entry_not_converted [of key ops al w] by (simp add: projection_of_def)
next
  case True
  show ?thesis
  proof (cases "new_key_of key")
    case None
    then show ?thesis
      using assms True convert_entry_unexpected [of key ops al w]
      by (auto simp: projection_of_def)
  next
    case (Some nk)
    note nk = this
    show ?thesis
    proof (cases "al (lora_name_of key)")
      case None
      then show ?thesis
        using convert_entry_missing [OF True nk None assms(1)] True nk
        by (auto simp: projection_of_def)
    next
      case (Some alpha)
      then have "lora_name_of key \<noteq> M" using assms(2) by auto
      then show ?thesis
        using count_entry_scaled [OF assms(1) Some, of M] by (simp add: projection_of_def)
    qed
  qed
qed

lemma convert_items_count_missing:
  "convert_items ops al items conv = (log, Inr out) \<Longrightarrow> al M = None
     \<Longrightarrow> count_list log (''missing alpha for '' @ M)
           = length (filter (\<lambda>(key, w). projection_of M key) items)"
proof (induction items arbitrary: conv log)
  case Nil
  then show ?case by simp
next
  case (Cons kv items)
  obtain key w where kv: "kv = (key, w)" by (cases kv)
  obtain msgs r where ce: "convert_entry ops al (key, w) = (msgs, r)"
    by (cases "convert_entry ops al (key, w)")
  show ?case
  proof (cases r)
    case (Inl e)
    then show ?thesis using Cons.prems ce kv by simp
  next
    case (Inr st)
    have c: "count_list msgs (''missing alpha for '' @ M)
        = (if projection_of M key then 1 else 0)"
      using convert_entry_count_missing [of ops al key w msgs st M] ce Inr Cons.prems(2)
      by simp
    obtain conv' where "conv' = (case st of None \<Rightarrow> conv | Some (nk, v) \<Rightarrow> dict_set conv nk v)"
      by simp
    then obtain log' where rest: "convert_items ops al items conv' = (log', Inr out)"
      and log: "log = msgs @ log'"
      using Cons.prems(1) ce kv Inr by (auto split: prod.splits option.splits)
    from Cons.IH [OF rest Cons.prems(2)] c log show ?thesis
      by (simp add: kv)
  qed
qed

lemma convert_items_keeps:
  "convert_items ops al items conv = (log, Inr out) \<Longrightarrow> map_of conv nk = Some w
     \<Longrightarrow> \<forall>(key', w') \<in> set items. converted key' \<longrightarrow> new_key_of key' \<noteq> Some nk
     \<Longrightarrow> map_of out nk = Some w"
proof (induction items arbitrary: conv log)
  case Nil
  then show ?case by simp
next
  case (Cons kv items)
  obtain key v where kv: "kv = (key, v)" by (cases kv)
  obtain msgs r where ce: "convert_entry ops al (key, v) = (msgs, r)"
    by (cases "convert_entry ops al (key, v)")
  have later: "\<forall>(key', w') \<in> set items. converted key' \<longrightarrow> new_key_of key' \<noteq> Some nk"
    using Cons.prems(3) by simp
  show ?case
  proof (cases r)
    case (Inl e)
    then show ?thesis using Cons.prems ce kv by simp
  next
    case (Inr st)
    show ?thesis
    proof (cases st)
      case None
      then obtain log' where "convert_items ops al items conv = (log', Inr out)"
        using Cons.prems(1) ce kv Inr by (auto split: prod.splits)
      from Cons.IH [OF this Cons.prems(2) later] show ?thesis .
    next
      case (Some p)
      obtain nk' v' where p: "p = (nk', v')" by (cases p)
      then obtain log' where
        rest: "convert_items ops al items (dict_set conv nk' v') = (log', Inr out)"
        using Cons.prems(1) ce kv Inr Some by (auto split: prod.splits)
      have "converted key \<and> new_key_of key = Some nk'"
        using convert_entry_stores [of ops al key v msgs nk' v'] ce Inr Some p by simp
      then have "nk' \<noteq> nk" using Cons.prems(3) kv by auto
      then have "map_of (dict_set conv nk' v') nk = Some w"
        using Cons.prems(2) by (simp add: map_of_dict_set)
      from Cons.IH [OF rest this later] show ?thesis .
    qed
  qed
qed

text \<open>
  C6, as the code has it. A projection entry whose scale axis exists and whose module
  has no alpha prints one line \<open>missing alpha for\<close> with the module name, stores its
  weight as it is under the new key, and the loop goes on with the rest. When the
  conversion returns a mapping, the number of these lines for a module \<open>M\<close> without
  alpha is the number of projection entries of \<open>M\<close> (one line for each weight, not one
  for the module), and the output holds the unscaled weight under the new key of each
  such entry that no later entry overwrites.
\<close>

theorem missing_alpha_unscaled:
  "(\<forall>(al :: string \<rightharpoonup> 't) key w nk dim rest conv.
      prefix musubi_prefix key \<and> \<not> str_contains ''alpha'' key \<and>
      new_key_and_dim ops key w = Some (nk, Inr dim) \<and> al (lora_name_of key) = None \<longrightarrow>
      convert_items ops al ((key, w) # rest) conv =
        ((''missing alpha for '' @ lora_name_of key)
           # fst (convert_items ops al rest (dict_set conv nk w)),
         snd (convert_items ops al rest (dict_set conv nk w)))) \<and>
   (has_alpha_key lora \<and> check_for_musubi (ops :: 't torch) lora = (log, Inr out) \<and>
    fst (scan_alphas lora (Map.empty, False)) M = None \<longrightarrow>
      count_list log (''missing alpha for '' @ M)
        = length (filter (\<lambda>(key, w). projection_of M key) lora) \<and>
      (\<forall>xs key w ys nk.
         lora = xs @ (key, w) # ys \<and> projection_of M key \<and> new_key_of key = Some nk \<and>
         (\<forall>(key', w') \<in> set ys. converted key' \<longrightarrow> new_key_of key' \<noteq> Some nk)
         \<longrightarrow> map_of out nk = Some w))"
proof (rule conjI)
  show "\<forall>(al :: string \<rightharpoonup> 't) key w nk dim rest conv.
      prefix musubi_prefix key \<and> \<not> str_contains ''alpha'' key \<and>
      new_key_and_dim ops key w = Some (nk, Inr dim) \<and> al (lora_name_of key) = None \<longrightarrow>
      convert_items ops al ((key, w) # rest) conv =
        ((''missing alpha for '' @ lora_name_of key)
           # fst (convert_items ops al rest (dict_set conv nk w)),
         snd (convert_items ops al rest (dict_set conv nk w)))"
  proof (intro allI impI)
    fix al :: "string \<rightharpoonup> 't" and key w nk dim rest conv
    assume h: "prefix musubi_prefix key \<and> \<not> str_contains ''alpha'' key \<and>
        new_key_and_dim ops key w = Some (nk, Inr dim) \<and> al (lora_name_of key) = None"
    then have "convert_entry ops al (key, w)
        = ([''missing alpha for '' @ lora_name_of key], Inr (Some (nk, w)))"
      by (simp add: convert_entry_missing_step)
    then show "convert_items ops al ((key, w) # rest) conv =
          ((''missing alpha for '' @ lora_name_of key)
             # fst (convert_items ops al rest (dict_set conv nk w)),
           snd (convert_items ops al rest (dict_set conv nk w)))"
      by (simp split: prod.splits)
  qed
next
  show "has_alpha_key lora \<and> check_for_musubi ops lora = (log, Inr out) \<and>
    fst (scan_alphas lora (Map.empty, False)) M = None \<longrightarrow>
      count_list log (''missing alpha for '' @ M)
        = length (filter (\<lambda>(key, w). projection_of M key) lora) \<and>
      (\<forall>xs key w ys nk.
         lora = xs @ (key, w) # ys \<and> projection_of M key \<and> new_key_of key = Some nk \<and>
         (\<forall>(key', w') \<in> set ys. converted key' \<longrightarrow> new_key_of key' \<noteq> Some nk)
         \<longrightarrow> map_of out nk = Some w)"
  proof (rule impI)
    assume h: "has_alpha_key lora \<and> check_for_musubi ops lora = (log, Inr out) \<and>
      fst (scan_alphas lora (Map.empty, False)) M = None"
    obtain al where al: "scan_alphas lora (Map.empty, False) = (al, True)"
      using musubi_flag [of lora] h by (cases "scan_alphas lora (Map.empty, False)") auto
    then have noalpha: "al M = None" using h by simp
    from h al obtain log' where ci: "convert_items ops al lora [] = (log', Inr out)"
      and log: "log = ''Loading Musubi Tuner format LoRA...'' # log'"
      by (auto simp: check_for_musubi_def split: prod.splits)
    have count: "count_list log (''missing alpha for '' @ M)
          = length (filter (\<lambda>(key, w). projection_of M key) lora)"
      using convert_items_count_missing [OF ci noalpha] by (simp add: log)
    have kept: "map_of out nk = Some w"
      if g: "lora = xs @ (key, w) # ys \<and> projection_of M key \<and> new_key_of key = Some nk \<and>
           (\<forall>(key', w') \<in> set ys. converted key' \<longrightarrow> new_key_of key' \<noteq> Some nk)"
      for xs key w ys nk
    proof -
      from g have c: "converted key" and name: "lora_name_of key = M"
        by (simp_all add: projection_of_def)
      obtain o1 r1 where x: "convert_items ops al xs [] = (o1, r1)"
        by (cases "convert_items ops al xs []")
      obtain c1 where r1: "r1 = Inr c1"
        using ci g x by (cases r1) (auto simp: convert_items_append)
      obtain o2 where y: "convert_items ops al ((key, w) # ys) c1 = (o2, Inr out)"
        using ci g x r1 by (auto simp: convert_items_append split: prod.splits)
      obtain msgs r where ce: "convert_entry ops al (key, w) = (msgs, r)"
        by (cases "convert_entry ops al (key, w)")
      obtain st where r: "r = Inr st" using y ce by (cases r) auto
      have st: "st = Some (nk, w)"
        using convert_entry_missing [of key nk al ops w msgs st] c g name noalpha ce r by simp
      obtain o3 where rest: "convert_items ops al ys (dict_set c1 nk w) = (o3, Inr out)"
        using y ce r st by (auto split: prod.splits)
      have "map_of (dict_set c1 nk w) nk = Some w" by (simp add: map_of_dict_set)
      from convert_items_keeps [OF rest this] g show "map_of out nk = Some w" by blast
    qed
    from count kept show "count_list log (''missing alpha for '' @ M)
        = length (filter (\<lambda>(key, w). projection_of M key) lora) \<and>
      (\<forall>xs key w ys nk.
         lora = xs @ (key, w) # ys \<and> projection_of M key \<and> new_key_of key = Some nk \<and>
         (\<forall>(key', w') \<in> set ys. converted key' \<longrightarrow> new_key_of key' \<noteq> Some nk)
         \<longrightarrow> map_of out nk = Some w)"
      by blast
  qed
qed

lemma two_projections_run:
  "check_for_musubi sym_torch
     [(''lora_unet_a.alpha'', Tensor ''a'' []),
      (''lora_unet_b.lora_down.weight'', Tensor ''T1'' [4, 8]),
      (''lora_unet_b.lora_up.weight'', Tensor ''T2'' [8, 4])]
   = ([''Loading Musubi Tuner format LoRA...'', ''missing alpha for lora_unet_b'',
       ''missing alpha for lora_unet_b''],
      Inr [(''diffusion_model.b.lora_A.weight'', Tensor ''T1'' [4, 8]),
           (''diffusion_model.b.lora_B.weight'', Tensor ''T2'' [8, 4])])"
  by (simp add: check_for_musubi_def musubi_prefix_def lora_name_of_def convert_entry_def
        new_key_and_dim_def module_name_of_def shape_at_def sym_torch_def)

lemma two_projections_alphas:
  "fst (scan_alphas
     [(''lora_unet_a.alpha'', Tensor ''a'' []),
      (''lora_unet_b.lora_down.weight'', Tensor ''T1'' [4, 8]),
      (''lora_unet_b.lora_up.weight'', Tensor ''T2'' [8, 4])] (Map.empty, False))
     ''lora_unet_b'' = None"
  by (simp add: musubi_prefix_def lora_name_of_def)

text \<open>
  C6, as the claim states it, fails: a module without alpha that has a down and an up
  projection gets two diagnostics, not one.
\<close>

theorem missing_alpha_two_diagnostics:
  "fst (scan_alphas
     [(''lora_unet_a.alpha'', Tensor ''a'' []),
      (''lora_unet_b.lora_down.weight'', Tensor ''T1'' [4, 8]),
      (''lora_unet_b.lora_up.weight'', Tensor ''T2'' [8, 4])] (Map.empty, False))
     ''lora_unet_b'' = None \<and>
   check_for_musubi sym_torch
     [(''lora_unet_a.alpha'', Tensor ''a'' []),
      (''lora_unet_b.lora_down.weight'', Tensor ''T1'' [4, 8]),
      (''lora_unet_b.lora_up.weight'', Tensor ''T2'' [8, 4])]
   = ([''Loading Musubi Tuner format LoRA...'', ''missing alpha for lora_unet_b'',
       ''missing alpha for lora_unet_b''],
      Inr [(''diffusion_model.b.lora_A.weight'', Tensor ''T1'' [4, 8]),
           (''diffusion_model.b.lora_B.weight'', Tensor ''T2'' [8, 4])])"
  using two_projections_run two_projections_alphas by simp

theorem missing_alpha_unscaled_witness:
  "count_list [''Loading Musubi Tuner format LoRA...'', ''missing alpha for lora_unet_b'',
       ''missing alpha for lora_unet_b''] (''missing alpha for '' @ ''lora_unet_b'') = 2 \<and>
   map_of [(''diffusion_model.b.lora_A.weight'', Tensor ''T1'' [4, 8]),
           (''diffusion_model.b.lora_B.weight'', Tensor ''T2'' [8, 4])]
     ''diffusion_model.b.lora_A.weight'' = Some (Tensor ''T1'' [4, 8])"
proof -
  let ?lora = "[(''lora_unet_a.alpha'', Tensor ''a'' []),
      (''lora_unet_b.lora_down.weight'', Tensor ''T1'' [4, 8]),
      (''lora_unet_b.lora_up.weight'', Tensor ''T2'' [8, 4])]"
  let ?log = "[''Loading Musubi Tuner format LoRA...'', ''missing alpha for lora_unet_b'',
       ''missing alpha for lora_unet_b'']"
  let ?out = "[(''diffusion_model.b.lora_A.weight'', Tensor ''T1'' [4, 8]),
           (''diffusion_model.b.lora_B.weight'', Tensor ''T2'' [8, 4])]"
  have h: "has_alpha_key ?lora \<and> check_for_musubi sym_torch ?lora = (?log, Inr ?out) \<and>
      fst (scan_alphas ?lora (Map.empty, False)) ''lora_unet_b'' = None"
    using two_projections_run two_projections_alphas
    by (simp add: has_alpha_key_def musubi_prefix_def)
  have names: "lora_name_of ''lora_unet_b.lora_down.weight'' = ''lora_unet_b''"
    "lora_name_of ''lora_unet_b.lora_up.weight'' = ''lora_unet_b''"
    "module_name_of ''lora_unet_b'' = ''b''"
    by (simp_all add: lora_name_of_def module_name_of_def musubi_prefix_def)
  have n: "length (filter (\<lambda>(key, w). projection_of ''lora_unet_b'' key) ?lora) = 2"
    by (simp add: projection_of_def converted_def new_key_of_def musubi_prefix_def names)
  have g: "?lora = [(''lora_unet_a.alpha'', Tensor ''a'' [])]
        @ (''lora_unet_b.lora_down.weight'', Tensor ''T1'' [4, 8])
        # [(''lora_unet_b.lora_up.weight'', Tensor ''T2'' [8, 4])] \<and>
      projection_of ''lora_unet_b'' ''lora_unet_b.lora_down.weight'' \<and>
      new_key_of ''lora_unet_b.lora_down.weight'' = Some ''diffusion_model.b.lora_A.weight'' \<and>
      (\<forall>(key', w') \<in> set [(''lora_unet_b.lora_up.weight'', Tensor ''T2'' [8, 4])].
          converted key' \<longrightarrow> new_key_of key' \<noteq> Some ''diffusion_model.b.lora_A.weight'')"
    by (simp add: projection_of_def converted_def new_key_of_def musubi_prefix_def names)
  from missing_alpha_unscaled [of sym_torch ?lora ?log ?out "''lora_unet_b''",
      THEN conjunct2, rule_format, OF h]
  have c: "count_list ?log (''missing alpha for '' @ ''lora_unet_b'')
        = length (filter (\<lambda>(key, w). projection_of ''lora_unet_b'' key) ?lora)"
    and k: "\<And>xs key w ys nk.
       ?lora = xs @ (key, w) # ys \<and> projection_of ''lora_unet_b'' key \<and>
       new_key_of key = Some nk \<and>
       (\<forall>(key', w') \<in> set ys. converted key' \<longrightarrow> new_key_of key' \<noteq> Some nk)
       \<Longrightarrow> map_of ?out nk = Some w"
    by blast+
  from k [OF g] c n show ?thesis by simp
qed

end
